theory Spec2Isabelle
  imports Complex_Main "HOL-Library.Product_Lexorder"
begin

section \<open>The ultrametric loss glue of \<open>um_loss.py\<close>\<close>

text \<open>
  The module \<open>funlib/learn/tensorflow/losses/um_loss.py\<close> wires two native routines,
  \<open>impl.emst\<close> (imported as \<open>euclidean_mst\<close>) and \<open>impl.um_loss\<close>, into a tensorflow
  graph. This theory embeds the functions of that module.

  Conventions of the embedding:
  \<^item> floating point numbers are idealised as exact reals; the precision of a numpy array
    is kept as a tag (\<open>dtype\<close>), and \<open>astype\<close> changes the tag only; the tensors of the
    graph that \<open>ultrametric_loss_op\<close> builds are \<open>float32\<close> throughout, as the
    concatenation with the \<open>float32\<close> coordinates and the products with the \<open>float32\<close>
    ratios require, and carry no tag;
  \<^item> a Python exception is a value \<open>Inl e\<close>, and an op that runs a Python function
    through \<open>tf.py_func\<close> fails with the error of that function;
  \<^item> the logger and the calls into the native routines are recorded in an event list
    that every function receives and returns extended;
  \<^item> the native routines are not part of the module: every function that reaches one
    takes it as an argument (\<open>em\<close> for \<open>euclidean_mst\<close>, \<open>ul\<close> for \<open>um_loss\<close>).
\<close>

subsection \<open>Data\<close>

datatype np_dtype = Float16 | Float32 | Float64

record 'a ndarray =
  dtype :: np_dtype
  items :: "'a list"

text \<open>A row of the MST array: the two node indices and the distance, all stored as floats.\<close>

type_synonym edge = "real \<times> real \<times> real"

datatype error =
    ValueError
  | IndexError
  | ZeroDivisionError
  | InvalidArgumentError
  | InvalidInput

datatype event =
    LogInfo real real
  | LogWarn real real
  | CallEmst "real list ndarray"
  | CallUmLoss "edge ndarray" "int list" real

type_synonym 'a run = "event list \<Rightarrow> (error + 'a) \<times> event list"

text \<open>The result tuple of \<open>um_loss\<close>:
  \<open>(loss, gradient, ratio_pos, ratio_neg, num_pairs_pos, num_pairs_neg)\<close>.\<close>

type_synonym um_out =
  "real \<times> real ndarray \<times> real ndarray \<times> real ndarray \<times> real \<times> real"

type_synonym emst_fn = "real list ndarray \<Rightarrow> error + edge ndarray"

type_synonym um_loss_fn = "edge ndarray \<Rightarrow> int list \<Rightarrow> real \<Rightarrow> error + um_out"

subsection \<open>Sequencing\<close>

definition return_run :: "'a \<Rightarrow> 'a run" where
  "return_run x s = (Inr x, s)"

definition raise :: "error \<Rightarrow> 'a run" where
  "raise e s = (Inl e, s)"

definition emit :: "event \<Rightarrow> unit run" where
  "emit ev s = (Inr (), s @ [ev])"

definition lift_result :: "error + 'a \<Rightarrow> 'a run" where
  "lift_result r s = (r, s)"

definition bind_run :: "'a run \<Rightarrow> ('a \<Rightarrow> 'b run) \<Rightarrow> 'b run" where
  "bind_run m f s = (case m s of (Inl e, s') \<Rightarrow> (Inl e, s') | (Inr x, s') \<Rightarrow> f x s')"

subsection \<open>numpy and tensorflow primitives\<close>

definition astype :: "np_dtype \<Rightarrow> 'a ndarray \<Rightarrow> 'a ndarray" where
  "astype d a = a\<lparr>dtype := d\<rparr>"

text \<open>\<open>np.min\<close> and \<open>np.max\<close> raise ValueError on an array without elements.\<close>

fun np_min :: "real list \<Rightarrow> error + real" where
  "np_min [] = Inl ValueError"
| "np_min (x # xs) = Inr (fold min xs x)"

fun np_max :: "real list \<Rightarrow> error + real" where
  "np_max [] = Inl ValueError"
| "np_max (x # xs) = Inr (fold max xs x)"

text \<open>\<open>tf.py_func\<close> fails when the array returned by the Python function does not have
  the declared output type.\<close>

definition expect_dtype :: "np_dtype \<Rightarrow> 'a ndarray \<Rightarrow> 'a ndarray run" where
  "expect_dtype d a = (if dtype a = d then return_run a else raise InvalidArgumentError)"

subsection \<open>\<open>get_emst\<close>, \<open>get_emst_op\<close>\<close>

definition get_emst :: "emst_fn \<Rightarrow> real list ndarray \<Rightarrow> edge ndarray run" where
  "get_emst em embedding =
     bind_run (emit (CallEmst (astype Float64 embedding))) (\<lambda>_.
     bind_run (lift_result (em (astype Float64 embedding))) (\<lambda>emst.
     bind_run (lift_result (np_min (map (\<lambda>(u, v, d). d) (items emst)))) (\<lambda>d_min.
     bind_run (lift_result (np_max (map (\<lambda>(u, v, d). d) (items emst)))) (\<lambda>d_max.
     bind_run (emit (LogInfo d_min d_max)) (\<lambda>_.
     return_run emst)))))"

definition get_emst_op :: "emst_fn \<Rightarrow> real list ndarray \<Rightarrow> edge ndarray run" where
  "get_emst_op em embedding = bind_run (get_emst em embedding) (expect_dtype Float64)"

subsection \<open>\<open>get_um_loss\<close>, \<open>get_um_loss_gradient\<close>, \<open>get_um_loss_gradient_op\<close>\<close>

text \<open>The five values \<open>get_um_loss\<close> returns:
  \<open>(loss, ratio_pos, ratio_neg, num_pairs_pos, num_pairs_neg)\<close>.\<close>

type_synonym loss_out = "real \<times> real ndarray \<times> real ndarray \<times> real \<times> real"

definition get_um_loss ::
  "um_loss_fn \<Rightarrow> edge ndarray \<Rightarrow> real ndarray \<Rightarrow> int list \<Rightarrow> real \<Rightarrow> loss_out run" where
  "get_um_loss ul mst dist_arg gt_seg alpha =
     bind_run (emit (CallUmLoss mst gt_seg alpha)) (\<lambda>_.
     bind_run (lift_result (ul mst gt_seg alpha))
       (\<lambda>(loss, _, ratio_pos, ratio_neg, num_pairs_pos, num_pairs_neg).
     return_run
       (loss, astype Float32 ratio_pos, astype Float32 ratio_neg,
        num_pairs_pos, num_pairs_neg)))"

definition get_um_loss_gradient ::
  "um_loss_fn \<Rightarrow> edge ndarray \<Rightarrow> real ndarray \<Rightarrow> int list \<Rightarrow> real \<Rightarrow> real ndarray run" where
  "get_um_loss_gradient ul mst dist_arg gt_seg alpha =
     bind_run (emit (CallUmLoss mst gt_seg alpha)) (\<lambda>_.
     bind_run (lift_result (ul mst gt_seg alpha))
       (\<lambda>(_, gradient, _, _, _, _).
     return_run (astype Float32 gradient)))"

text \<open>The inputs of the op the gradient is registered for, in the order they were given
  to it: \<open>[emst, dist, gt_seg, alpha]\<close>.\<close>

record um_op =
  op_mst :: "edge ndarray"
  op_dist :: "real ndarray"
  op_gt_seg :: "int list"
  op_alpha :: real

text \<open>The product of the gradient vector with the scalar \<open>dloss\<close>.\<close>

definition scale_by :: "real ndarray \<Rightarrow> real \<Rightarrow> real ndarray" where
  "scale_by g c = g\<lparr>items := map (\<lambda>x. x * c) (items g)\<rparr>"

definition get_um_loss_gradient_op ::
  "um_loss_fn \<Rightarrow> um_op \<Rightarrow> real \<Rightarrow> real ndarray \<Rightarrow> real ndarray \<Rightarrow> real \<Rightarrow> real \<Rightarrow>
   (real ndarray option \<times> real ndarray option \<times> real ndarray option \<times> real ndarray option) run"
  where
  "get_um_loss_gradient_op ul op dloss dratio_pos dratio_neg dnum_pairs_pos dnum_pairs_neg =
     bind_run
       (bind_run (get_um_loss_gradient ul (op_mst op) (op_dist op) (op_gt_seg op) (op_alpha op))
          (expect_dtype Float32))
       (\<lambda>gradient. return_run (None, Some (scale_by gradient dloss), None, None))"

subsection \<open>Tensors of the graph\<close>

text \<open>A tensor with a static shape; \<open>flat\<close> holds its elements in row-major order, as
  many as the product of the entries of \<open>shape\<close>.\<close>

record 'a tensor =
  shape :: "nat list"
  flat :: "'a list"

text \<open>The argument \<open>coordinate_scale\<close> is a float or a tuple of floats.\<close>

datatype scale_arg = ScaleFloat real | ScaleTuple "real list"

text \<open>\<open>tuple(coordinate_scale)\<close>, and \<open>(coordinate_scale,)*3\<close> when that raises TypeError.\<close>

definition scale_tuple :: "scale_arg \<Rightarrow> real list" where
  "scale_tuple cs = (case cs of ScaleTuple xs \<Rightarrow> xs | ScaleFloat x \<Rightarrow> [x, x, x])"

text \<open>\<open>np.arange(start, stop, step)\<close> on floats: the values \<open>start + i * step\<close> for
  \<open>i\<close> below the ceiling of \<open>(stop - start) / step\<close>; the division fails for a step of
  zero.\<close>

definition np_arange :: "real \<Rightarrow> real \<Rightarrow> real \<Rightarrow> error + real list" where
  "np_arange start stop step =
     (if step = 0 then Inl ZeroDivisionError
      else Inr (map (\<lambda>i. start + real i * step) [0..<nat \<lceil>(stop - start) / step\<rceil>]))"

text \<open>\<open>tf.meshgrid(a, b, c, indexing='ij')\<close>: three tensors of shape
  \<open>(len a, len b, len c)\<close>, stacked along a new first axis when they are given to
  \<open>tf.concat\<close> as one list.\<close>

definition tf_meshgrid :: "real list \<Rightarrow> real list \<Rightarrow> real list \<Rightarrow> real tensor" where
  "tf_meshgrid a b c =
     \<lparr>shape = [3, length a, length b, length c],
      flat = concat (map (\<lambda>x. concat (map (\<lambda>y. map (\<lambda>z. x) c) b)) a)
           @ concat (map (\<lambda>x. concat (map (\<lambda>y. map (\<lambda>z. y) c) b)) a)
           @ concat (map (\<lambda>x. concat (map (\<lambda>y. map (\<lambda>z. z) c) b)) a)\<rparr>"

text \<open>\<open>tf.concat([s, t], 0)\<close>: the shapes must agree in all axes but the first.\<close>

definition tf_concat0 :: "'a tensor \<Rightarrow> 'a tensor \<Rightarrow> error + 'a tensor" where
  "tf_concat0 s t =
     (if shape s \<noteq> [] \<and> shape t \<noteq> [] \<and> tl (shape s) = tl (shape t)
      then Inr \<lparr>shape = (hd (shape s) + hd (shape t)) # tl (shape s), flat = flat s @ flat t\<rparr>
      else Inl ValueError)"

text \<open>\<open>tf.transpose(t, perm=[1, 2, 3, 0])\<close> of a tensor of shape \<open>(k, d, h, w)\<close>.\<close>

definition tf_transpose_1230 :: "'a tensor \<Rightarrow> error + 'a tensor" where
  "tf_transpose_1230 t =
     (case shape t of
        [k, d, h, w] \<Rightarrow>
          Inr \<lparr>shape = [d, h, w, k],
               flat = concat (map (\<lambda>p. map (\<lambda>c. flat t ! (c * (d * h * w) + p)) [0..<k])
                                  [0..<d * h * w])\<rparr>
      | _ \<Rightarrow> Inl ValueError)"

text \<open>\<open>tf.reshape(t, [n, -1])\<close>: the rows of the resulting matrix. The missing size is
  inferred from the number of elements, which fails when \<open>n\<close> is zero or does not divide
  that number.\<close>

definition tf_reshape_rows :: "'a tensor \<Rightarrow> nat \<Rightarrow> error + 'a list list" where
  "tf_reshape_rows t n =
     (if n = 0 \<or> length (flat t) mod n \<noteq> 0 then Inl ValueError
      else Inr (map (\<lambda>p. take (length (flat t) div n) (drop (p * (length (flat t) div n)) (flat t)))
                    [0..<n]))"

text \<open>\<open>tf.reshape(t, [n])\<close>.\<close>

definition tf_reshape_flat :: "'a tensor \<Rightarrow> nat \<Rightarrow> error + 'a list" where
  "tf_reshape_flat t n = (if length (flat t) = n then Inr (flat t) else Inl ValueError)"

text \<open>\<open>tf.boolean_mask\<close> along the first axis; the mask must be as long as that axis.\<close>

definition tf_boolean_mask :: "'a list \<Rightarrow> bool list \<Rightarrow> error + 'a list" where
  "tf_boolean_mask xs m =
     (if length m = length xs then Inr (map fst (filter snd (zip xs m))) else Inl ValueError)"

text \<open>\<open>tf.cast\<close> of a float to \<open>int64\<close> drops the fractional part.\<close>

definition tf_cast_int64 :: "real \<Rightarrow> int" where
  "tf_cast_int64 x = (if 0 \<le> x then \<lfloor>x\<rfloor> else \<lceil>x\<rceil>)"

text \<open>\<open>tf.gather\<close> along the first axis fails on an index out of range, as its CPU
  kernel does.\<close>

definition tf_gather :: "'a list \<Rightarrow> int list \<Rightarrow> error + 'a list" where
  "tf_gather xs idx =
     (if list_all (\<lambda>i. 0 \<le> i \<and> i < int (length xs)) idx
      then Inr (map (\<lambda>i. xs ! nat i) idx)
      else Inl InvalidArgumentError)"

text \<open>\<open>tf.multiply\<close> of two vectors, with broadcasting of a vector of length one.\<close>

definition tf_multiply :: "real list \<Rightarrow> real list \<Rightarrow> error + real list" where
  "tf_multiply xs ys =
     (if length xs = length ys then Inr (map (\<lambda>(x, y). x * y) (zip xs ys))
      else if length xs = 1 then Inr (map (\<lambda>y. hd xs * y) ys)
      else if length ys = 1 then Inr (map (\<lambda>x. x * hd ys) xs)
      else Inl InvalidArgumentError)"

text \<open>A float computed by the graph: division by zero yields a value that is not finite.\<close>

datatype tf_float = Finite real | NotFinite

definition tf_div :: "real \<Rightarrow> real \<Rightarrow> tf_float" where
  "tf_div x y = (if y = 0 then NotFinite else Finite (x / y))"

subsection \<open>\<open>ultrametric_loss_op\<close>\<close>

text \<open>Step 1 of \<open>ultrametric_loss_op\<close>: the embedding augmented by the spatial
  coordinates, and the warning about \<open>alpha\<close>.\<close>

definition add_coordinate_channels ::
  "real tensor \<Rightarrow> nat \<Rightarrow> nat \<Rightarrow> nat \<Rightarrow> nat \<Rightarrow> real \<Rightarrow> scale_arg \<Rightarrow> real tensor run" where
  "add_coordinate_channels embedding k depth height width alpha coordinate_scale =
     (let scale = scale_tuple coordinate_scale in
      if length scale < 3 then raise IndexError
      else
        bind_run (lift_result (np_arange 0 (real depth * scale ! 0) (scale ! 0))) (\<lambda>zs.
        bind_run (lift_result (np_arange 0 (real height * scale ! 1) (scale ! 1))) (\<lambda>ys.
        bind_run (lift_result (np_arange 0 (real width * scale ! 2) (scale ! 2))) (\<lambda>xs.
        bind_run (lift_result (tf_concat0 embedding (tf_meshgrid zs ys xs))) (\<lambda>embedding'.
        let max_scale = fold max (tl scale) (hd scale);
            min_scale = fold min (tl scale) (hd scale);
            min_d = min_scale;
            max_d = sqrt (max_scale\<^sup>2 + real k)
        in bind_run (if max_d - min_d < alpha then emit (LogWarn min_d max_d)
                     else return_run ()) (\<lambda>_.
           return_run embedding'))))))"

text \<open>Steps 1 and 2: one embedding vector per node and one label per node, after
  masking.\<close>

definition embedding_points ::
  "real tensor \<Rightarrow> int tensor \<Rightarrow> bool tensor option \<Rightarrow> real \<Rightarrow> bool \<Rightarrow> scale_arg \<Rightarrow>
   (real list list \<times> int list) run" where
  "embedding_points embedding gt_seg mask_arg alpha add_coordinates coordinate_scale =
     (case shape embedding of
        [k, depth, height, width] \<Rightarrow>
          bind_run (if add_coordinates
                    then add_coordinate_channels embedding k depth height width alpha
                           coordinate_scale
                    else return_run embedding) (\<lambda>embedding.
          bind_run (lift_result (tf_transpose_1230 embedding)) (\<lambda>embedding.
          bind_run (lift_result (tf_reshape_rows embedding (depth * width * height)))
            (\<lambda>embedding.
          bind_run (lift_result (tf_reshape_flat gt_seg (depth * width * height))) (\<lambda>gt_seg.
          case mask_arg of
            None \<Rightarrow> return_run (embedding, gt_seg)
          | Some m \<Rightarrow>
              bind_run (lift_result (tf_reshape_flat m (depth * width * height))) (\<lambda>m.
              bind_run (lift_result (tf_boolean_mask embedding m)) (\<lambda>embedding.
              bind_run (lift_result (tf_boolean_mask gt_seg m)) (\<lambda>gt_seg.
              return_run (embedding, gt_seg))))))))
      | _ \<Rightarrow> raise ValueError)"

text \<open>\<open>tf.py_func(get_um_loss, ..., [tf.float32] * 5)\<close>.\<close>

definition py_func_get_um_loss ::
  "um_loss_fn \<Rightarrow> edge ndarray \<Rightarrow> real ndarray \<Rightarrow> int list \<Rightarrow> real \<Rightarrow> loss_out run" where
  "py_func_get_um_loss ul mst dist_arg gt_seg alpha =
     bind_run (get_um_loss ul mst dist_arg gt_seg alpha)
       (\<lambda>(loss, ratio_pos, ratio_neg, num_pairs_pos, num_pairs_neg).
     bind_run (expect_dtype Float32 ratio_pos) (\<lambda>ratio_pos.
     bind_run (expect_dtype Float32 ratio_neg) (\<lambda>ratio_neg.
     return_run (loss, ratio_pos, ratio_neg, num_pairs_pos, num_pairs_neg))))"

text \<open>The squared length of the difference of two rows.\<close>

definition squared_distance :: "real list \<Rightarrow> real list \<Rightarrow> real" where
  "squared_distance u v = sum_list (map (\<lambda>(a, b). (a - b)\<^sup>2) (zip u v))"

text \<open>The value returned is \<open>(loss, emst, edges_u, edges_v, dist)\<close>. In full mode the
  loss is the first output of \<open>py_func_gradient(get_um_loss, ...)\<close>; the helper
  \<open>py_func_gradient\<close> is not among the sources, and its forward value is taken to be that
  of \<open>tf.py_func\<close> on the same arguments.\<close>

definition ultrametric_loss_op ::
  "emst_fn \<Rightarrow> um_loss_fn \<Rightarrow> real tensor \<Rightarrow> int tensor \<Rightarrow> bool tensor option \<Rightarrow> real \<Rightarrow>
   bool \<Rightarrow> scale_arg \<Rightarrow> bool \<Rightarrow> bool \<Rightarrow>
   (tf_float \<times> edge ndarray \<times> real list list \<times> real list list \<times> real list) run" where
  "ultrametric_loss_op em ul embedding gt_seg mask_arg alpha add_coordinates coordinate_scale
     pretrain pretrain_balance =
     bind_run (embedding_points embedding gt_seg mask_arg alpha add_coordinates coordinate_scale)
       (\<lambda>(embedding, gt_seg).
     bind_run (get_emst_op em \<lparr>dtype = Float32, items = embedding\<rparr>) (\<lambda>emst.
     bind_run (lift_result
         (tf_gather embedding (map (\<lambda>(u, v, d). tf_cast_int64 u) (items emst)))) (\<lambda>edges_u.
     bind_run (lift_result
         (tf_gather embedding (map (\<lambda>(u, v, d). tf_cast_int64 v) (items emst)))) (\<lambda>edges_v.
     let dist_squared = map (\<lambda>(u, v). squared_distance u v) (zip edges_u edges_v);
         dist_edges = map sqrt dist_squared
     in
     bind_run
       (bind_run
          (py_func_get_um_loss ul emst \<lparr>dtype = Float32, items = dist_edges\<rparr> gt_seg alpha)
          (\<lambda>(loss, ratio_pos, ratio_neg, num_pairs_pos, num_pairs_neg).
          if pretrain then
            bind_run (lift_result (tf_multiply dist_squared (items ratio_pos))) (\<lambda>loss_pos.
            bind_run (lift_result
                (tf_multiply (map (\<lambda>d. (max 0 (alpha - d))\<^sup>2) dist_edges) (items ratio_neg)))
              (\<lambda>loss_neg.
            if pretrain_balance then
              return_run (Finite (sum_list loss_pos + sum_list loss_neg))
            else
              (let sum_pos = sum_list loss_pos * num_pairs_pos;
                   sum_neg = sum_list loss_neg * num_pairs_neg;
                   num_pairs = num_pairs_pos + num_pairs_neg
               in return_run (tf_div (sum_pos + sum_neg) num_pairs))))
          else return_run (Finite loss)))
       (\<lambda>loss. return_run (loss, emst, edges_u, edges_v, dist_edges))))))"

subsection \<open>Reference versions of the native routines\<close>

text \<open>Modelled from the spec: the union of two clusters, used by the reference versions of
  the native routines \<open>impl.emst\<close> and \<open>impl.um_loss\<close>, which are not among the
  sources. Every point in the cluster \<open>b\<close> moves to the cluster \<open>a\<close>.\<close>

definition merge_clusters :: "nat \<Rightarrow> nat \<Rightarrow> nat list \<Rightarrow> nat list" where
  "merge_clusters a b cluster = map (\<lambda>c. if c = b then a else c) cluster"

text \<open>Modelled from the spec: the candidate edges \<open>(squared distance, u, v)\<close> with
  \<open>u < v\<close> of the complete graph on the points, for the reference MST builder.\<close>

definition candidate_edges :: "real list list \<Rightarrow> (real \<times> nat \<times> nat) list" where
  "candidate_edges pts =
     concat (map (\<lambda>u. map (\<lambda>v. (squared_distance (pts ! u) (pts ! v), u, v))
                            [Suc u..<length pts])
                 [0..<length pts])"

text \<open>Modelled from the spec: Kruskal's algorithm on the sorted candidate edges, for the
  reference MST builder.\<close>

fun kruskal :: "(real \<times> nat \<times> nat) list \<Rightarrow> nat list \<Rightarrow> edge list" where
  "kruskal [] cluster = []"
| "kruskal ((w, u, v) # es) cluster =
     (if cluster ! u = cluster ! v then kruskal es cluster
      else (real u, real v, sqrt w)
             # kruskal es (merge_clusters (cluster ! u) (cluster ! v) cluster))"

text \<open>Modelled from the spec: \<open>impl.emst\<close>, the native MST builder imported as
  \<open>euclidean_mst\<close>, is not among the sources. The specification fixes its contract:
  \<open>N - 1\<close> edges \<open>(u, v, distance)\<close> of a minimum spanning tree under the Euclidean
  distance, in non-decreasing order of distance with ties broken lexicographically on
  \<open>(u, v)\<close>, in double precision, and \<open>InvalidInput\<close> for an empty point set. The
  algorithm is left open there; this one is Kruskal's.\<close>

definition euclidean_mst :: emst_fn where
  "euclidean_mst a =
     (if items a = [] then Inl InvalidInput
      else Inr \<lparr>dtype = Float64,
                items = kruskal (sort_key (\<lambda>e. e) (candidate_edges (items a)))
                          [0..<length (items a)]\<rparr>)"

text \<open>Modelled from the spec: the pair counter of the specification, part of the absent
  \<open>impl.um_loss\<close>: for each edge, in the order given, the number of positive and of
  negative pairs that have it as their bottleneck.
  \<open>num_pos\<close> is the sum over the labels of the product of the two clusters' counts of
  that label.\<close>

fun pair_counts :: "(nat \<times> nat) list \<Rightarrow> int list \<Rightarrow> nat list \<Rightarrow> (nat \<times> nat) list" where
  "pair_counts [] labels cluster = []"
| "pair_counts ((u, v) # es) labels cluster =
     (let A = filter (\<lambda>i. cluster ! i = cluster ! u) [0..<length cluster];
          B = filter (\<lambda>i. cluster ! i = cluster ! v) [0..<length cluster];
          num_pos = sum_list (map (\<lambda>l. length (filter (\<lambda>i. labels ! i = l) A) *
                                        length (filter (\<lambda>i. labels ! i = l) B))
                                  (remdups labels));
          num_neg = length A * length B - num_pos
      in (num_pos, num_neg)
           # pair_counts es labels (merge_clusters (cluster ! u) (cluster ! v) cluster))"

text \<open>Modelled from the spec: \<open>max(0, x)\<close>, evaluated before squaring.\<close>

definition hinge :: "real \<Rightarrow> real" where
  "hinge x = max 0 x"

text \<open>Modelled from the spec: the margin loss engine of the specification in full mode,
  part of the absent \<open>impl.um_loss\<close>, on the distances \<open>d\<close> and the pair counts of the
  edges:
  \<open>L = \<Sum>i j. num_pos i * num_neg j * (max 0 (d j - d i + alpha))\<^sup>2\<close>.\<close>

definition margin_loss :: "real list \<Rightarrow> real list \<Rightarrow> real list \<Rightarrow> real \<Rightarrow> real" where
  "margin_loss d num_pos num_neg alpha =
     sum_list (map (\<lambda>i. sum_list (map (\<lambda>j.
         num_pos ! i * num_neg ! j * (hinge (d ! j - d ! i + alpha))\<^sup>2) [0..<length d]))
       [0..<length d])"

text \<open>Modelled from the spec: the gradient of the margin loss with respect to \<open>d i\<close>,
  part of the absent \<open>impl.um_loss\<close>: the contribution of the positive pairs of edge \<open>i\<close>
  and that of its negative pairs.\<close>

definition margin_gradient ::
  "real list \<Rightarrow> real list \<Rightarrow> real list \<Rightarrow> real \<Rightarrow> real list" where
  "margin_gradient d num_pos num_neg alpha =
     map (\<lambda>i.
         sum_list (map (\<lambda>j. num_pos ! i * num_neg ! j * (- 2)
                               * hinge (d ! j - d ! i + alpha)) [0..<length d])
       + sum_list (map (\<lambda>j. num_pos ! j * num_neg ! i * 2
                               * hinge (d ! i - d ! j + alpha)) [0..<length d]))
       [0..<length d]"

text \<open>Modelled from the spec: the counts of the edges divided by their total, and zero when
  the total is zero.\<close>

definition ratios :: "real list \<Rightarrow> real list" where
  "ratios counts =
     map (\<lambda>c. if sum_list counts = 0 then 0 else c / sum_list counts) counts"

text \<open>Modelled from the spec: the input check of the absent \<open>impl.um_loss\<close>. The
  specification's error taxonomy rejects an empty label list, a number of edges that is
  not the number of labels less one, and a negative \<open>alpha\<close>; an edge whose end is not a
  node is rejected with them.\<close>

definition um_loss_input_ok :: "edge ndarray \<Rightarrow> int list \<Rightarrow> real \<Rightarrow> bool" where
  "um_loss_input_ok mst gt_seg alpha =
     (gt_seg \<noteq> [] \<and> Suc (length (items mst)) = length gt_seg \<and> 0 \<le> alpha \<and>
      list_all (\<lambda>(u, v, d). 0 \<le> u \<and> 0 \<le> v \<and> tf_cast_int64 u < int (length gt_seg)
                               \<and> tf_cast_int64 v < int (length gt_seg)) (items mst))"

text \<open>Modelled from the spec: how the absent \<open>impl.um_loss\<close> reads a row of the MST
  array, the node indices and the distance.\<close>

definition edge_nodes :: "edge \<Rightarrow> nat \<times> nat" where
  "edge_nodes e = (case e of (u, v, d) \<Rightarrow> (nat (tf_cast_int64 u), nat (tf_cast_int64 v)))"

definition edge_distance :: "edge \<Rightarrow> real" where
  "edge_distance e = (case e of (u, v, d) \<Rightarrow> d)"

text \<open>Modelled from the spec: \<open>impl.um_loss\<close>, the native loss routine, is not among
  the sources. This is the specification's pair counter followed by its margin loss
  engine in full mode, with the ratios \<open>num_pos i / num_pairs_pos\<close> and
  \<open>num_neg i / num_pairs_neg\<close>; invalid input is rejected before anything else. The
  result is \<open>(loss, gradient, ratio_pos, ratio_neg, num_pairs_pos, num_pairs_neg)\<close>.\<close>

definition um_loss :: um_loss_fn where
  "um_loss mst gt_seg alpha =
     (if \<not> um_loss_input_ok mst gt_seg alpha then Inl InvalidInput
      else
        (let counts = pair_counts (map edge_nodes (items mst)) gt_seg [0..<length gt_seg];
             d = map edge_distance (items mst);
             num_pos = map (\<lambda>(p, q). real p) counts;
             num_neg = map (\<lambda>(p, q). real q) counts
         in Inr (margin_loss d num_pos num_neg alpha,
                 \<lparr>dtype = Float64, items = margin_gradient d num_pos num_neg alpha\<rparr>,
                 \<lparr>dtype = Float64, items = ratios num_pos\<rparr>,
                 \<lparr>dtype = Float64, items = ratios num_neg\<rparr>,
                 sum_list num_pos, sum_list num_neg)))"

subsection \<open>Notions used in the statements\<close>

text \<open>The Euclidean length of an MST edge: the distance between the embedding vectors of
  its two nodes.\<close>

definition edge_length :: "real list list \<Rightarrow> edge \<Rightarrow> real" where
  "edge_length pts e =
     (case e of (u, v, d) \<Rightarrow>
        sqrt (squared_distance (pts ! nat (tf_cast_int64 u)) (pts ! nat (tf_cast_int64 v))))"

text \<open>Both node indices of every edge are indices into the list of \<open>n\<close> points.\<close>

definition edges_in_range :: "nat \<Rightarrow> edge list \<Rightarrow> bool" where
  "edges_in_range n es =
     list_all (\<lambda>(u, v, d). 0 \<le> tf_cast_int64 u \<and> tf_cast_int64 u < int n \<and>
                            0 \<le> tf_cast_int64 v \<and> tf_cast_int64 v < int n) es"

text \<open>The smallest and the largest distance stored in a non-empty MST array.\<close>

definition min_distance :: "edge list \<Rightarrow> real" where
  "min_distance es = fold min (map edge_distance (tl es)) (edge_distance (hd es))"

definition max_distance :: "edge list \<Rightarrow> real" where
  "max_distance es = fold max (map edge_distance (tl es)) (edge_distance (hd es))"

text \<open>The events of a run of \<open>ultrametric_loss_op\<close> that reaches \<open>um_loss\<close>, after the
  events \<open>s\<close> that preceded the MST builder.\<close>

definition op_events ::
  "event list \<Rightarrow> real list list \<Rightarrow> edge ndarray \<Rightarrow> int list \<Rightarrow> real \<Rightarrow> event list" where
  "op_events s pts emst labels alpha =
     s @ [CallEmst \<lparr>dtype = Float64, items = pts\<rparr>,
          LogInfo (min_distance (items emst)) (max_distance (items emst)),
          CallUmLoss emst labels alpha]"

text \<open>The two sums of the pretraining loss over the edges \<open>i\<close>:
  \<open>(d i)\<^sup>2 * ratio_pos i\<close> and \<open>(max 0 (alpha - d i))\<^sup>2 * ratio_neg i\<close>.\<close>

definition pretrain_loss_pos :: "real list \<Rightarrow> real list \<Rightarrow> real" where
  "pretrain_loss_pos d ratio_pos =
     sum_list (map (\<lambda>i. (d ! i)\<^sup>2 * ratio_pos ! i) [0..<length d])"

definition pretrain_loss_neg :: "real \<Rightarrow> real list \<Rightarrow> real list \<Rightarrow> real" where
  "pretrain_loss_neg alpha d ratio_neg =
     sum_list (map (\<lambda>i. (max 0 (alpha - d ! i))\<^sup>2 * ratio_neg ! i) [0..<length d])"


text \<open>The events that the logger's warning about \<open>alpha\<close> leaves.\<close>

definition is_warning :: "event \<Rightarrow> bool" where
  "is_warning ev = (case ev of LogWarn lo hi \<Rightarrow> True | _ \<Rightarrow> False)"

text \<open>An event is compatible with the points, labels and \<open>alpha\<close> handed to the native
  routines: a call of the MST builder is on exactly these points in double precision, and
  a call of \<open>um_loss\<close> is on exactly these labels and this \<open>alpha\<close>.\<close>

definition native_call_of :: "real list list \<Rightarrow> int list \<Rightarrow> real \<Rightarrow> event \<Rightarrow> bool" where
  "native_call_of pts labels alpha ev =
     (case ev of
        CallEmst a \<Rightarrow> a = \<lparr>dtype = Float64, items = pts\<rparr>
      | CallUmLoss m l al \<Rightarrow> l = labels \<and> al = alpha
      | _ \<Rightarrow> True)"

subsection \<open>Example inputs\<close>

text \<open>Four points at the corners of a 5 by 1 rectangle, labelled \<open>[7, 7, 8, 8]\<close>: an
  embedding with two channels over a volume of shape \<open>(1, 1, 4)\<close>.\<close>

definition square4_embedding :: "real tensor" where
  "square4_embedding = \<lparr>shape = [2, 1, 1, 4], flat = [0, 0, 5, 5, 0, 1, 0, 1]\<rparr>"

definition square4_gt_seg :: "int tensor" where
  "square4_gt_seg = \<lparr>shape = [1, 1, 4], flat = [7, 7, 8, 8]\<rparr>"

definition square4_points :: "real list list" where
  "square4_points = [[0, 0], [0, 1], [5, 0], [5, 1]]"

definition square4_emst :: "edge ndarray" where
  "square4_emst = \<lparr>dtype = Float64, items = [(0, 1, 1), (2, 3, 1), (0, 2, 5)]\<rparr>"

text \<open>Three voxels in a row with an embedding of three channels that is zero everywhere,
  a mask that keeps the first two voxels, a mask that keeps the first voxel only, and a
  mask that keeps none.\<close>

definition line3_embedding :: "real tensor" where
  "line3_embedding = \<lparr>shape = [3, 1, 1, 3], flat = [0, 0, 0, 0, 0, 0, 0, 0, 0]\<rparr>"

definition line3_gt_seg :: "int tensor" where
  "line3_gt_seg = \<lparr>shape = [1, 1, 3], flat = [7, 7, 8]\<rparr>"

definition line3_mask :: "bool tensor" where
  "line3_mask = \<lparr>shape = [1, 1, 3], flat = [True, True, False]\<rparr>"

definition line3_mask_first :: "bool tensor" where
  "line3_mask_first = \<lparr>shape = [1, 1, 3], flat = [True, False, False]\<rparr>"


definition line3_points :: "real list list" where
  "line3_points = [[0, 0, 0, 0, 0, 0], [0, 0, 0, 0, 0, 1]]"

definition line3_emst :: "edge ndarray" where
  "line3_emst = \<lparr>dtype = Float64, items = [(0, 1, 1)]\<rparr>"

text \<open>A volume that consists of a single voxel.\<close>

definition single_embedding :: "real tensor" where
  "single_embedding = \<lparr>shape = [3, 1, 1, 1], flat = [0, 0, 0]\<rparr>"

definition single_gt_seg :: "int tensor" where
  "single_gt_seg = \<lparr>shape = [1, 1, 1], flat = [7]\<rparr>"

section \<open>Properties\<close>

subsection \<open>Evaluation of the entry points\<close>

lemmas run_defs =
  return_run_def raise_def emit_def lift_result_def bind_run_def expect_dtype_def

lemma get_um_loss_eval:
  "get_um_loss ul mst dist_arg gt_seg alpha s =
     ((case ul mst gt_seg alpha of
         Inl e \<Rightarrow> Inl e
       | Inr (loss, gradient, ratio_pos, ratio_neg, num_pairs_pos, num_pairs_neg) \<Rightarrow>
           Inr (loss, astype Float32 ratio_pos, astype Float32 ratio_neg,
                num_pairs_pos, num_pairs_neg)),
      s @ [CallUmLoss mst gt_seg alpha])"
  by (simp add: get_um_loss_def run_defs split: sum.splits prod.splits)

lemma get_um_loss_gradient_eval:
  "get_um_loss_gradient ul mst dist_arg gt_seg alpha s =
     ((case ul mst gt_seg alpha of
         Inl e \<Rightarrow> Inl e
       | Inr (loss, gradient, ratio_pos, ratio_neg, num_pairs_pos, num_pairs_neg) \<Rightarrow>
           Inr (astype Float32 gradient)),
      s @ [CallUmLoss mst gt_seg alpha])"
  by (simp add: get_um_loss_gradient_def run_defs split: sum.splits prod.splits)

lemma get_emst_eval:
  "get_emst em embedding s =
     (case em (astype Float64 embedding) of
        Inl e \<Rightarrow> (Inl e, s @ [CallEmst (astype Float64 embedding)])
      | Inr emst \<Rightarrow>
          (case items emst of
             [] \<Rightarrow> (Inl ValueError, s @ [CallEmst (astype Float64 embedding)])
           | e # es \<Rightarrow>
               (Inr emst,
                s @ [CallEmst (astype Float64 embedding),
                     LogInfo (fold min (map (\<lambda>(u, v, d). d) es) (snd (snd e)))
                             (fold max (map (\<lambda>(u, v, d). d) es) (snd (snd e)))])))"
  by (simp add: get_emst_def run_defs split: sum.splits prod.splits list.splits)

lemma get_emst_op_eval:
  "get_emst_op em embedding s =
     (case em (astype Float64 embedding) of
        Inl e \<Rightarrow> (Inl e, s @ [CallEmst (astype Float64 embedding)])
      | Inr emst \<Rightarrow>
          (case items emst of
             [] \<Rightarrow> (Inl ValueError, s @ [CallEmst (astype Float64 embedding)])
           | e # es \<Rightarrow>
               (if dtype emst = Float64 then Inr emst else Inl InvalidArgumentError,
                s @ [CallEmst (astype Float64 embedding),
                     LogInfo (fold min (map (\<lambda>(u, v, d). d) es) (snd (snd e)))
                             (fold max (map (\<lambda>(u, v, d). d) es) (snd (snd e)))])))"
  by (simp add: get_emst_op_def get_emst_eval bind_run_def expect_dtype_def return_run_def
      raise_def split: sum.splits list.splits)

lemma edge_distance_eq: "(\<lambda>(u, v, d). d) = edge_distance"
  by (auto simp: edge_distance_def fun_eq_iff)

lemma get_emst_op_ok:
  assumes "em (astype Float64 a) = Inr emst" "dtype emst = Float64" "items emst \<noteq> []"
  shows "get_emst_op em a s =
     (Inr emst, s @ [CallEmst (astype Float64 a),
                     LogInfo (min_distance (items emst)) (max_distance (items emst))])"
proof -
  obtain e es where "items emst = e # es"
    using assms(3) by (cases "items emst") auto
  then show ?thesis
    using assms(1,2)
    by (simp add: get_emst_op_eval min_distance_def max_distance_def edge_distance_eq [symmetric]
        split: prod.splits)
qed

lemma py_func_get_um_loss_eval:
  "py_func_get_um_loss ul mst dist_arg gt_seg alpha s =
     ((case ul mst gt_seg alpha of
         Inl e \<Rightarrow> Inl e
       | Inr (loss, gradient, ratio_pos, ratio_neg, num_pairs_pos, num_pairs_neg) \<Rightarrow>
           Inr (loss, astype Float32 ratio_pos, astype Float32 ratio_neg,
                num_pairs_pos, num_pairs_neg)),
      s @ [CallUmLoss mst gt_seg alpha])"
proof (cases "ul mst gt_seg alpha")
  case (Inl e)
  then show ?thesis
    by (simp add: py_func_get_um_loss_def get_um_loss_eval bind_run_def)
next
  case (Inr r)
  obtain l g rp rn a b where "r = (l, g, rp, rn, a, b)"
    by (cases r) auto
  with Inr show ?thesis
    by (simp add: py_func_get_um_loss_def get_um_loss_eval run_defs astype_def)
qed

lemma squared_distance_nonneg: "0 \<le> squared_distance u v"
  unfolding squared_distance_def by (rule sum_list_nonneg) auto

lemma tf_gather_in_range:
  "list_all (\<lambda>i. 0 \<le> i \<and> i < int (length xs)) idx \<Longrightarrow>
   tf_gather xs idx = Inr (map (\<lambda>i. xs ! nat i) idx)"
  by (simp add: tf_gather_def)

lemma gather_u:
  "edges_in_range (length pts) es \<Longrightarrow>
   tf_gather pts (map (\<lambda>(u, v, d). tf_cast_int64 u) es)
     = Inr (map (\<lambda>(u, v, d). pts ! nat (tf_cast_int64 u)) es)"
  by (rule trans [OF tf_gather_in_range])
     (auto simp: edges_in_range_def list_all_iff split: prod.splits)

lemma gather_v:
  "edges_in_range (length pts) es \<Longrightarrow>
   tf_gather pts (map (\<lambda>(u, v, d). tf_cast_int64 v) es)
     = Inr (map (\<lambda>(u, v, d). pts ! nat (tf_cast_int64 v)) es)"
  by (rule trans [OF tf_gather_in_range])
     (auto simp: edges_in_range_def list_all_iff split: prod.splits)

lemma dist_squared_edges:
  "map (\<lambda>(u, v). squared_distance u v)
     (zip (map (\<lambda>(u, v, d). pts ! nat (tf_cast_int64 u)) es)
          (map (\<lambda>(u, v, d). pts ! nat (tf_cast_int64 v)) es))
   = map (\<lambda>e. (edge_length pts e)\<^sup>2) es"
  by (induction es) (auto simp: edge_length_def squared_distance_nonneg)

lemma dist_edges:
  "map sqrt (map (\<lambda>e. (edge_length pts e)\<^sup>2) es) = map (edge_length pts) es"
  by (auto simp: edge_length_def squared_distance_nonneg split: prod.splits)

lemma loss_op_eval:
  assumes pts: "embedding_points embedding gt_seg mask_arg alpha addc cs s = (Inr (pts, labels), s1)"
    and em: "em \<lparr>dtype = Float64, items = pts\<rparr> = Inr emst"
    and f64: "dtype emst = Float64"
    and ne: "items emst \<noteq> []"
    and idx: "edges_in_range (length pts) (items emst)"
  shows "ultrametric_loss_op em ul embedding gt_seg mask_arg alpha addc cs pretrain balance s =
    (case ul emst labels alpha of
       Inl err \<Rightarrow> (Inl err, op_events s1 pts emst labels alpha)
     | Inr (l, g, rp, rn, npp, npn) \<Rightarrow>
        (if pretrain then
           (case tf_multiply (map (\<lambda>e. (edge_length pts e)\<^sup>2) (items emst)) (items rp) of
              Inl err \<Rightarrow> (Inl err, op_events s1 pts emst labels alpha)
            | Inr loss_pos \<Rightarrow>
              (case tf_multiply (map (\<lambda>d. (max 0 (alpha - d))\<^sup>2)
                                   (map (edge_length pts) (items emst))) (items rn) of
                 Inl err \<Rightarrow> (Inl err, op_events s1 pts emst labels alpha)
               | Inr loss_neg \<Rightarrow>
                   (Inr (if balance then Finite (sum_list loss_pos + sum_list loss_neg)
                         else tf_div (sum_list loss_pos * npp + sum_list loss_neg * npn)
                                (npp + npn),
                         emst,
                         map (\<lambda>(u, v, d). pts ! nat (tf_cast_int64 u)) (items emst),
                         map (\<lambda>(u, v, d). pts ! nat (tf_cast_int64 v)) (items emst),
                         map (edge_length pts) (items emst)),
                    op_events s1 pts emst labels alpha)))
         else (Inr (Finite l, emst,
                    map (\<lambda>(u, v, d). pts ! nat (tf_cast_int64 u)) (items emst),
                    map (\<lambda>(u, v, d). pts ! nat (tf_cast_int64 v)) (items emst),
                    map (edge_length pts) (items emst)),
               op_events s1 pts emst labels alpha)))"
proof -
  have emst_op: "get_emst_op em \<lparr>dtype = Float32, items = pts\<rparr> s1 =
      (Inr emst, s1 @ [CallEmst \<lparr>dtype = Float64, items = pts\<rparr>,
                       LogInfo (min_distance (items emst)) (max_distance (items emst))])"
    using get_emst_op_ok [of em "\<lparr>dtype = Float32, items = pts\<rparr>" emst s1] em f64 ne
    by (simp add: astype_def)
  show ?thesis
  proof (cases "ul emst labels alpha")
    case (Inl err)
    then show ?thesis
      by (simp add: ultrametric_loss_op_def bind_run_def pts emst_op lift_result_def
          gather_u [OF idx] gather_v [OF idx] py_func_get_um_loss_eval op_events_def Let_def)
  next
    case (Inr r)
    obtain l g rp rn npp npn where r: "r = (l, g, rp, rn, npp, npn)"
      by (cases r) auto
    show ?thesis
      by (simp add: ultrametric_loss_op_def bind_run_def pts emst_op lift_result_def
          gather_u [OF idx] gather_v [OF idx] py_func_get_um_loss_eval op_events_def Let_def
          Inr r dist_squared_edges dist_edges return_run_def astype_def
          del: map_map split: sum.splits)
  qed
qed

lemma loss_op_fail_early:
  "embedding_points embedding gt_seg mask_arg alpha addc cs s = (Inl e, s1) \<Longrightarrow>
   ultrametric_loss_op em ul embedding gt_seg mask_arg alpha addc cs pretrain balance s
     = (Inl e, s1)"
  by (simp add: ultrametric_loss_op_def bind_run_def)


subsection \<open>The steps before the MST builder\<close>

lemma bind_run_InrE:
  assumes "bind_run m f s = (Inr y, s2)"
  obtains x s1 where "m s = (Inr x, s1)" and "f x s1 = (Inr y, s2)"
  using assms by (auto simp: bind_run_def split: prod.splits sum.splits)

lemma lift_result_InrD: "lift_result r s = (Inr x, s') \<Longrightarrow> r = Inr x"
  by (simp add: lift_result_def)

lemma add_coordinate_channels_events:
  "snd (add_coordinate_channels embedding k depth height width alpha cs s) = s \<or>
   (\<exists>lo hi. snd (add_coordinate_channels embedding k depth height width alpha cs s)
      = s @ [LogWarn lo hi])"
  by (auto simp: add_coordinate_channels_def Let_def run_defs split: sum.splits)

lemma embedding_points_events:
  "snd (embedding_points embedding gt_seg mask_arg alpha addc cs s) = s \<or>
   (\<exists>lo hi. snd (embedding_points embedding gt_seg mask_arg alpha addc cs s)
      = s @ [LogWarn lo hi])"
proof (cases "\<exists>k depth height width. shape embedding = [k, depth, height, width]")
  case False
  then have "embedding_points embedding gt_seg mask_arg alpha addc cs s = (Inl ValueError, s)"
    by (auto simp: embedding_points_def raise_def split: list.splits)
  then show ?thesis by simp
next
  case True
  then obtain k depth height width where sh: "shape embedding = [k, depth, height, width]"
    by blast
  show ?thesis
  proof (cases addc)
    case False
    then show ?thesis
      by (auto simp: embedding_points_def sh run_defs split: sum.splits option.splits)
  next
    case True
    obtain r s' where a: "add_coordinate_channels embedding k depth height width alpha cs s = (r, s')"
      by (cases "add_coordinate_channels embedding k depth height width alpha cs s") auto
    have s': "s' = s \<or> (\<exists>lo hi. s' = s @ [LogWarn lo hi])"
      using add_coordinate_channels_events [of embedding k depth height width alpha cs s] a
      by simp
    have "snd (embedding_points embedding gt_seg mask_arg alpha addc cs s) = s'"
      using True a
      by (auto simp: embedding_points_def sh run_defs split: sum.splits option.splits)
    then show ?thesis using s' by auto
  qed
qed

lemma length_boolean_mask:
  "length xs = length m \<Longrightarrow> length ys = length m \<Longrightarrow>
   length (filter snd (zip xs m)) = length (filter snd (zip ys m))"
proof (induction m arbitrary: xs ys)
  case Nil
  then show ?case by simp
next
  case (Cons b m)
  then show ?case
    by (cases xs; cases ys) auto
qed

lemma tf_reshape_rows_length: "tf_reshape_rows t n = Inr rows \<Longrightarrow> length rows = n"
  by (auto simp: tf_reshape_rows_def split: if_splits)

lemma tf_reshape_flat_length: "tf_reshape_flat t n = Inr xs \<Longrightarrow> length xs = n"
  by (auto simp: tf_reshape_flat_def split: if_splits)

lemma tf_boolean_mask_length:
  assumes "tf_boolean_mask xs m = Inr xs'" "tf_boolean_mask ys m = Inr ys'"
  shows "length xs' = length ys'"
proof -
  have "length xs = length m" "length ys = length m"
    using assms by (auto simp: tf_boolean_mask_def split: if_splits)
  then have "length (filter snd (zip xs m)) = length (filter snd (zip ys m))"
    by (rule length_boolean_mask)
  then show ?thesis
    using assms by (auto simp: tf_boolean_mask_def split: if_splits)
qed

lemma embedding_points_InrE:
  assumes "embedding_points embedding gt_seg mask_arg alpha addc cs s = (Inr (pts, labels), s1)"
  obtains k depth height width e2 rows lab where
    "shape embedding = [k, depth, height, width]"
    "tf_reshape_rows e2 (depth * width * height) = Inr rows"
    "tf_reshape_flat gt_seg (depth * width * height) = Inr lab"
    "(mask_arg = None \<and> pts = rows \<and> labels = lab) \<or>
     (\<exists>m mf. mask_arg = Some m \<and> tf_reshape_flat m (depth * width * height) = Inr mf \<and>
        tf_boolean_mask rows mf = Inr pts \<and> tf_boolean_mask lab mf = Inr labels)"
proof -
  obtain k depth height width where sh: "shape embedding = [k, depth, height, width]"
    using assms by (auto simp: embedding_points_def raise_def split: list.splits)
  let ?n = "depth * width * height"
  from assms obtain e1 sa where
    "bind_run (lift_result (tf_transpose_1230 e1)) (\<lambda>embedding.
       bind_run (lift_result (tf_reshape_rows embedding ?n)) (\<lambda>embedding.
       bind_run (lift_result (tf_reshape_flat gt_seg ?n)) (\<lambda>gt_seg.
       case mask_arg of
         None \<Rightarrow> return_run (embedding, gt_seg)
       | Some m \<Rightarrow>
           bind_run (lift_result (tf_reshape_flat m ?n)) (\<lambda>m.
           bind_run (lift_result (tf_boolean_mask embedding m)) (\<lambda>embedding.
           bind_run (lift_result (tf_boolean_mask gt_seg m)) (\<lambda>gt_seg.
           return_run (embedding, gt_seg))))))) sa = (Inr (pts, labels), s1)"
    unfolding embedding_points_def sh list.case by (rule bind_run_InrE)
  then obtain e2 sb where
    "bind_run (lift_result (tf_reshape_rows e2 ?n)) (\<lambda>embedding.
       bind_run (lift_result (tf_reshape_flat gt_seg ?n)) (\<lambda>gt_seg.
       case mask_arg of
         None \<Rightarrow> return_run (embedding, gt_seg)
       | Some m \<Rightarrow>
           bind_run (lift_result (tf_reshape_flat m ?n)) (\<lambda>m.
           bind_run (lift_result (tf_boolean_mask embedding m)) (\<lambda>embedding.
           bind_run (lift_result (tf_boolean_mask gt_seg m)) (\<lambda>gt_seg.
           return_run (embedding, gt_seg)))))) sb = (Inr (pts, labels), s1)"
    by (rule bind_run_InrE)
  then obtain rows sc where rows: "lift_result (tf_reshape_rows e2 ?n) sb = (Inr rows, sc)"
    and r3: "bind_run (lift_result (tf_reshape_flat gt_seg ?n)) (\<lambda>gt_seg.
       case mask_arg of
         None \<Rightarrow> return_run (rows, gt_seg)
       | Some m \<Rightarrow>
           bind_run (lift_result (tf_reshape_flat m ?n)) (\<lambda>m.
           bind_run (lift_result (tf_boolean_mask rows m)) (\<lambda>embedding.
           bind_run (lift_result (tf_boolean_mask gt_seg m)) (\<lambda>gt_seg.
           return_run (embedding, gt_seg))))) sc = (Inr (pts, labels), s1)"
    by (rule bind_run_InrE)
  from r3 obtain lab sd where lab: "lift_result (tf_reshape_flat gt_seg ?n) sc = (Inr lab, sd)"
    and r4: "(case mask_arg of
         None \<Rightarrow> return_run (rows, lab)
       | Some m \<Rightarrow>
           bind_run (lift_result (tf_reshape_flat m ?n)) (\<lambda>m.
           bind_run (lift_result (tf_boolean_mask rows m)) (\<lambda>embedding.
           bind_run (lift_result (tf_boolean_mask lab m)) (\<lambda>gt_seg.
           return_run (embedding, gt_seg))))) sd = (Inr (pts, labels), s1)"
    by (rule bind_run_InrE)
  have masked: "(mask_arg = None \<and> pts = rows \<and> labels = lab) \<or>
     (\<exists>m mf. mask_arg = Some m \<and> tf_reshape_flat m ?n = Inr mf \<and>
        tf_boolean_mask rows mf = Inr pts \<and> tf_boolean_mask lab mf = Inr labels)"
  proof (cases mask_arg)
    case None
    with r4 show ?thesis by (simp add: return_run_def)
  next
    case (Some m)
    with r4 obtain mf se where mf: "lift_result (tf_reshape_flat m ?n) sd = (Inr mf, se)"
      and r5: "bind_run (lift_result (tf_boolean_mask rows mf)) (\<lambda>embedding.
           bind_run (lift_result (tf_boolean_mask lab mf)) (\<lambda>gt_seg.
           return_run (embedding, gt_seg))) se = (Inr (pts, labels), s1)"
      by (auto elim: bind_run_InrE)
    from r5 obtain rows' sf where m1: "lift_result (tf_boolean_mask rows mf) se = (Inr rows', sf)"
      and r6: "bind_run (lift_result (tf_boolean_mask lab mf)) (\<lambda>gt_seg.
           return_run (rows', gt_seg)) sf = (Inr (pts, labels), s1)"
      by (rule bind_run_InrE)
    from r6 obtain lab' sg where m2: "lift_result (tf_boolean_mask lab mf) sf = (Inr lab', sg)"
      and r7: "return_run (rows', lab') sg = (Inr (pts, labels), s1)"
      by (rule bind_run_InrE)
    from r7 have "rows' = pts" "lab' = labels"
      by (simp_all add: return_run_def)
    with Some mf m1 m2 show ?thesis
      by (auto dest!: lift_result_InrD)
  qed
  show ?thesis
    using that [OF sh _ _ masked] rows lab
    by (auto dest!: lift_result_InrD)
qed

lemma embedding_points_lengths:
  assumes "embedding_points embedding gt_seg mask_arg alpha addc cs s = (Inr (pts, labels), s1)"
  shows "length pts = length labels"
  using assms
proof (rule embedding_points_InrE)
  fix k depth height width :: nat and e2 :: "real tensor" and rows lab
  assume rows: "tf_reshape_rows e2 (depth * width * height) = Inr rows"
    and lab: "tf_reshape_flat gt_seg (depth * width * height) = Inr lab"
    and masked: "(mask_arg = None \<and> pts = rows \<and> labels = lab) \<or>
     (\<exists>m mf. mask_arg = Some m \<and> tf_reshape_flat m (depth * width * height) = Inr mf \<and>
        tf_boolean_mask rows mf = Inr pts \<and> tf_boolean_mask lab mf = Inr labels)"
  have "length rows = length lab"
    using tf_reshape_rows_length [OF rows] tf_reshape_flat_length [OF lab] by simp
  with masked show ?thesis
    by (auto intro: tf_boolean_mask_length)
qed


subsection \<open>The events of a run\<close>

lemma snd_bind_lift:
  "snd (bind_run (lift_result r) f s) = (case r of Inl e \<Rightarrow> s | Inr x \<Rightarrow> snd (f x s))"
  by (simp add: bind_run_def lift_result_def split: sum.splits)

lemma loss_op_events:
  assumes pts: "embedding_points embedding gt_seg mask_arg alpha addc cs s = (Inr (pts, labels), s1)"
  shows "\<exists>evs. snd (ultrametric_loss_op em ul embedding gt_seg mask_arg alpha addc cs
                     pretrain balance s) = s1 @ evs
               \<and> list_all (native_call_of pts labels alpha) evs"
proof -
  let ?A = "\<lparr>dtype = Float64, items = pts\<rparr>"
  let ?op = "ultrametric_loss_op em ul embedding gt_seg mask_arg alpha addc cs pretrain balance s"
  have start: "?op =
     bind_run (get_emst_op em \<lparr>dtype = Float32, items = pts\<rparr>) (\<lambda>emst.
     bind_run (lift_result
         (tf_gather pts (map (\<lambda>(u, v, d). tf_cast_int64 u) (items emst)))) (\<lambda>edges_u.
     bind_run (lift_result
         (tf_gather pts (map (\<lambda>(u, v, d). tf_cast_int64 v) (items emst)))) (\<lambda>edges_v.
     let dist_squared = map (\<lambda>(u, v). squared_distance u v) (zip edges_u edges_v);
         dist_edges = map sqrt dist_squared
     in
     bind_run
       (bind_run
          (py_func_get_um_loss ul emst \<lparr>dtype = Float32, items = dist_edges\<rparr> labels alpha)
          (\<lambda>(loss, ratio_pos, ratio_neg, num_pairs_pos, num_pairs_neg).
          if pretrain then
            bind_run (lift_result (tf_multiply dist_squared (items ratio_pos))) (\<lambda>loss_pos.
            bind_run (lift_result
                (tf_multiply (map (\<lambda>d. (max 0 (alpha - d))\<^sup>2) dist_edges) (items ratio_neg)))
              (\<lambda>loss_neg.
            if balance then
              return_run (Finite (sum_list loss_pos + sum_list loss_neg))
            else
              (let sum_pos = sum_list loss_pos * num_pairs_pos;
                   sum_neg = sum_list loss_neg * num_pairs_neg;
                   num_pairs = num_pairs_pos + num_pairs_neg
               in return_run (tf_div (sum_pos + sum_neg) num_pairs))))
          else return_run (Finite loss)))
       (\<lambda>loss. return_run (loss, emst, edges_u, edges_v, dist_edges))))) s1"
    by (simp add: ultrametric_loss_op_def bind_run_def [of "embedding_points _ _ _ _ _ _"] pts)
  obtain r sa where g: "get_emst_op em \<lparr>dtype = Float32, items = pts\<rparr> s1 = (r, sa)"
    by (cases "get_emst_op em \<lparr>dtype = Float32, items = pts\<rparr> s1") auto
  have sa: "sa = s1 @ [CallEmst ?A] \<or> (\<exists>lo hi. sa = s1 @ [CallEmst ?A, LogInfo lo hi])"
    using g by (auto simp: get_emst_op_eval astype_def split: sum.splits list.splits)
  show ?thesis
  proof (cases r)
    case (Inl e)
    then have "snd ?op = sa"
      by (simp add: start bind_run_def g)
    then show ?thesis
      using sa by (auto simp: native_call_of_def)
  next
    case (Inr emst)
    have "snd ?op = sa \<or> snd ?op = sa @ [CallUmLoss emst labels alpha]"
      unfolding start
      apply (simp add: bind_run_def [of "get_emst_op _ _"] g Inr)
      apply (simp add: snd_bind_lift split: sum.splits)
      apply (auto simp: Let_def bind_run_def py_func_get_um_loss_eval return_run_def
          lift_result_def split: sum.splits prod.splits)
      done
    then show ?thesis
      using sa by (auto simp: native_call_of_def)
  qed
qed

subsection \<open>Statelessness of the building blocks\<close>

















subsection \<open>The example inputs, evaluated\<close>

lemma sqrt_25: "sqrt 25 = 5"
  by (simp add: real_sqrt_unique)

lemma square4_points_eval:
  "embedding_points square4_embedding square4_gt_seg None alpha False cs s
     = (Inr (square4_points, [7, 7, 8, 8]), s)"
  by (simp add: embedding_points_def square4_embedding_def square4_gt_seg_def
      square4_points_def run_defs tf_transpose_1230_def tf_reshape_rows_def
      tf_reshape_flat_def upt_rec)

lemma square4_candidates:
  "sort_key (\<lambda>e. e) (candidate_edges square4_points)
    = [(1, 0, 1), (1, 2, 3), (25, 0, 2), (25, 1, 3), (26, 0, 3), (26, 1, 2)]"
  by code_simp

lemma square4_emst_eval:
  "euclidean_mst \<lparr>dtype = Float64, items = square4_points\<rparr> = Inr square4_emst"
proof -
  have ne: "items \<lparr>dtype = Float64, items = square4_points\<rparr> \<noteq> []"
    by (simp add: square4_points_def)
  have len: "[0..<length square4_points] = [0, 1, 2, 3]"
    by (simp add: square4_points_def upt_rec)
  have "kruskal [(1, 0, 1), (1, 2, 3), (25, 0, 2), (25, 1, 3), (26, 0, 3), (26, 1, 2)]
          [0, 1, 2, 3] = [(0, 1, 1), (2, 3, 1), (0, 2, 5)]"
    by (simp add: merge_clusters_def sqrt_25)
  then show ?thesis
    using ne by (simp add: euclidean_mst_def square4_candidates len square4_emst_def)
qed

lemma um_loss_eval:
  assumes "um_loss_input_ok mst gt_seg alpha"
    and "pair_counts (map edge_nodes (items mst)) gt_seg [0..<length gt_seg] = counts"
    and "map edge_distance (items mst) = d"
    and "map (\<lambda>(p, q). real p) counts = num_pos"
    and "map (\<lambda>(p, q). real q) counts = num_neg"
  shows "um_loss mst gt_seg alpha =
     Inr (margin_loss d num_pos num_neg alpha,
          \<lparr>dtype = Float64, items = margin_gradient d num_pos num_neg alpha\<rparr>,
          \<lparr>dtype = Float64, items = ratios num_pos\<rparr>,
          \<lparr>dtype = Float64, items = ratios num_neg\<rparr>,
          sum_list num_pos, sum_list num_neg)"
  using assms by (simp add: um_loss_def Let_def)

lemma square4_um_loss_eval:
  assumes "0 \<le> alpha"
  shows "um_loss square4_emst [7, 7, 8, 8] alpha =
     Inr (margin_loss [1, 1, 5] [1, 1, 0] [0, 0, 4] alpha,
          \<lparr>dtype = Float64, items = margin_gradient [1, 1, 5] [1, 1, 0] [0, 0, 4] alpha\<rparr>,
          \<lparr>dtype = Float64, items = [1 / 2, 1 / 2, 0]\<rparr>,
          \<lparr>dtype = Float64, items = [0, 0, 1]\<rparr>, 2, 4)"
proof -
  have ok: "um_loss_input_ok square4_emst [7, 7, 8, 8] alpha"
    using assms by (simp add: um_loss_input_ok_def square4_emst_def tf_cast_int64_def)
  have counts: "pair_counts (map edge_nodes (items square4_emst)) [7, 7, 8, 8]
      [0..<length [7, 7, 8, 8 :: int]] = [(1, 0), (1, 0), (0, 4)]"
    by code_simp
  have d: "map edge_distance (items square4_emst) = [1, 1, 5]"
    by (simp add: square4_emst_def edge_distance_def)
  have rp: "ratios [1, 1, 0] = [1 / 2, 1 / 2, 0]" by code_simp
  have rn: "ratios [0, 0, 4] = [0, 0, 1]" by code_simp
  have "um_loss square4_emst [7, 7, 8, 8] alpha =
     Inr (margin_loss [1, 1, 5] [1, 1, 0] [0, 0, 4] alpha,
          \<lparr>dtype = Float64, items = margin_gradient [1, 1, 5] [1, 1, 0] [0, 0, 4] alpha\<rparr>,
          \<lparr>dtype = Float64, items = ratios [1, 1, 0]\<rparr>,
          \<lparr>dtype = Float64, items = ratios [0, 0, 4]\<rparr>,
          sum_list [1, 1, 0], sum_list [0, 0, 4])"
    by (rule um_loss_eval [OF ok counts d]) simp_all
  then show ?thesis
    by (simp add: rp rn)
qed


lemma square4_in_range: "edges_in_range (length square4_points) (items square4_emst)"
  by (simp add: edges_in_range_def square4_points_def square4_emst_def tf_cast_int64_def)

lemma square4_lengths: "map (edge_length square4_points) (items square4_emst) = [1, 1, 5]"
  by (simp add: edge_length_def square4_points_def square4_emst_def tf_cast_int64_def
      squared_distance_def sqrt_25)

lemma square4_loss_pos: "pretrain_loss_pos [1, 1, 5] [1 / 2, 1 / 2, 0] = 1"
  by code_simp

lemma square4_loss_neg: "pretrain_loss_neg 6 [1, 1, 5] [0, 0, 1] = 1"
  by code_simp


lemma square4_get_emst_op:
  "get_emst_op euclidean_mst \<lparr>dtype = d, items = square4_points\<rparr> s
     = (Inr square4_emst,
        s @ [CallEmst \<lparr>dtype = Float64, items = square4_points\<rparr>, LogInfo 1 5])"
proof -
  have "get_emst_op euclidean_mst \<lparr>dtype = d, items = square4_points\<rparr> s =
     (Inr square4_emst, s @ [CallEmst (astype Float64 \<lparr>dtype = d, items = square4_points\<rparr>),
        LogInfo (min_distance (items square4_emst)) (max_distance (items square4_emst))])"
    by (rule get_emst_op_ok) (simp_all add: astype_def square4_emst_eval square4_emst_def)
  then show ?thesis
    by (simp add: astype_def min_distance_def max_distance_def square4_emst_def edge_distance_def)
qed

lemma line3_channels:
  "add_coordinate_channels line3_embedding 3 (Suc 0) (Suc 0) 3 (1 / 10) (ScaleFloat 1) s =
     (Inr \<lparr>shape = [6, 1, 1, 3],
           flat = [0, 0, 0, 0, 0, 0, 0, 0, 0, 0, 0, 0, 0, 0, 0, 0, 1, 2]\<rparr>, s)"
  by (simp add: add_coordinate_channels_def scale_tuple_def run_defs tf_meshgrid_def
        tf_concat0_def line3_embedding_def Let_def np_arange_def upt_rec)

lemma line3_masked_points:
  "embedding_points line3_embedding line3_gt_seg (Some \<lparr>shape = [1, 1, 3], flat = [a, b, c]\<rparr>)
       (1 / 10) True (ScaleFloat 1) s
     = (Inr (map fst (filter snd
               (zip [[0, 0, 0, 0, 0, 0], [0, 0, 0, 0, 0, 1], [0, 0, 0, 0, 0, 2]] [a, b, c])),
             map fst (filter snd (zip [7, 7, 8] [a, b, c]))), s)"
proof -
  have sh: "shape line3_embedding = [3, 1, 1, 3]"
    by (simp add: line3_embedding_def)
  have t: "tf_transpose_1230 \<lparr>shape = [6, Suc 0, Suc 0, 3],
           flat = [0, 0, 0, 0, 0, 0, 0, 0, 0, 0, 0, 0, 0, 0, 0, 0, 1, 2 :: real]\<rparr>
        = Inr \<lparr>shape = [1, 1, 3, 6],
           flat = [0, 0, 0, 0, 0, 0, 0, 0, 0, 0, 0, 1, 0, 0, 0, 0, 0, 2]\<rparr>"
    by (simp add: tf_transpose_1230_def upt_rec)
  have r: "tf_reshape_rows \<lparr>shape = [Suc 0, Suc 0, 3, 6],
           flat = [0, 0, 0, 0, 0, 0, 0, 0, 0, 0, 0, 1, 0, 0, 0, 0, 0, 2 :: real]\<rparr> 3
        = Inr [[0, 0, 0, 0, 0, 0], [0, 0, 0, 0, 0, 1], [0, 0, 0, 0, 0, 2]]"
    by (simp add: tf_reshape_rows_def upt_rec)
  show ?thesis
    using t r
    by (simp add: embedding_points_def sh line3_channels bind_run_def lift_result_def
        return_run_def tf_reshape_flat_def tf_boolean_mask_def line3_gt_seg_def)
qed

lemma line3_points_eval:
  "embedding_points line3_embedding line3_gt_seg (Some line3_mask) (1 / 10) True (ScaleFloat 1) s
     = (Inr (line3_points, [7, 7]), s)"
  unfolding line3_mask_def line3_masked_points by (simp add: line3_points_def)

lemma line3_first_point_eval:
  "embedding_points line3_embedding line3_gt_seg (Some line3_mask_first) (1 / 10) True
       (ScaleFloat 1) s
     = (Inr ([[0, 0, 0, 0, 0, 0]], [7]), s)"
  unfolding line3_mask_first_def line3_masked_points by simp



lemma line3_emst_eval:
  "euclidean_mst \<lparr>dtype = Float64, items = line3_points\<rparr> = Inr line3_emst"
proof -
  have c: "sort_key (\<lambda>e. e) (candidate_edges line3_points) = [(1, 0, 1)]"
    by code_simp
  show ?thesis
    by (simp add: euclidean_mst_def c line3_emst_def)
       (simp add: line3_points_def upt_rec)
qed

lemma one_point_emst_eval:
  "euclidean_mst \<lparr>dtype = Float64, items = [p]\<rparr> = Inr \<lparr>dtype = Float64, items = []\<rparr>"
  by (simp add: euclidean_mst_def candidate_edges_def)

lemma line3_um_loss_eval:
  "um_loss line3_emst [7, 7] (1 / 10) =
     Inr (0, \<lparr>dtype = Float64, items = [0]\<rparr>, \<lparr>dtype = Float64, items = [1]\<rparr>,
          \<lparr>dtype = Float64, items = [0]\<rparr>, 1, 0)"
proof -
  have ok: "um_loss_input_ok line3_emst [7, 7] (1 / 10)"
    by (simp add: um_loss_input_ok_def line3_emst_def tf_cast_int64_def)
  have counts: "pair_counts (map edge_nodes (items line3_emst)) [7, 7]
      [0..<length [7, 7 :: int]] = [(1, 0)]"
    by code_simp
  have d: "map edge_distance (items line3_emst) = [1]"
    by (simp add: line3_emst_def edge_distance_def)
  have l: "margin_loss [1] [1] [0] (1 / 10) = 0" by code_simp
  have g: "margin_gradient [1] [1] [0] (1 / 10) = [0]" by code_simp
  have rp: "ratios [1] = [1]" by code_simp
  have rn: "ratios [0] = [0]" by code_simp
  have "um_loss line3_emst [7, 7] (1 / 10) =
     Inr (margin_loss [1] [1] [0] (1 / 10),
          \<lparr>dtype = Float64, items = margin_gradient [1] [1] [0] (1 / 10)\<rparr>,
          \<lparr>dtype = Float64, items = ratios [1]\<rparr>,
          \<lparr>dtype = Float64, items = ratios [0]\<rparr>,
          sum_list [1], sum_list [0])"
    by (rule um_loss_eval [OF ok counts d]) simp_all
  then show ?thesis
    by (simp add: l g rp rn)
qed

lemma line3_in_range: "edges_in_range (length line3_points) (items line3_emst)"
  by (simp add: edges_in_range_def line3_points_def line3_emst_def tf_cast_int64_def)

lemma line3_run:
  "ultrametric_loss_op euclidean_mst um_loss line3_embedding line3_gt_seg (Some line3_mask)
     (1 / 10) True (ScaleFloat 1) False False [] =
   (Inr (Finite 0, line3_emst, [[0, 0, 0, 0, 0, 0]], [[0, 0, 0, 0, 0, 1]], [1]),
    [CallEmst \<lparr>dtype = Float64, items = line3_points\<rparr>, LogInfo 1 1,
     CallUmLoss line3_emst [7, 7] (1 / 10)])"
proof -
  have ne: "items line3_emst \<noteq> []" and f64: "dtype line3_emst = Float64"
    by (simp_all add: line3_emst_def)
  show ?thesis
    unfolding loss_op_eval [where em = euclidean_mst,
          OF line3_points_eval line3_emst_eval f64 ne line3_in_range]
    by (simp add: line3_um_loss_eval op_events_def min_distance_def max_distance_def)
       (simp add: line3_emst_def line3_points_def edge_distance_def edge_length_def
          tf_cast_int64_def squared_distance_def)
qed

lemma single_points_eval:
  "embedding_points single_embedding single_gt_seg None (1 / 10) True (ScaleFloat 1) s
     = (Inr ([[0, 0, 0, 0, 0, 0]], [7]), s)"
proof -
  have c: "add_coordinate_channels single_embedding 3 (Suc 0) (Suc 0) (Suc 0) (1 / 10)
       (ScaleFloat 1) s =
     (Inr \<lparr>shape = [6, 1, 1, 1], flat = [0, 0, 0, 0, 0, 0]\<rparr>, s)"
    by (simp add: add_coordinate_channels_def scale_tuple_def run_defs tf_meshgrid_def
        tf_concat0_def single_embedding_def Let_def np_arange_def upt_rec)
  have sh: "shape single_embedding = [3, 1, 1, 1]"
    by (simp add: single_embedding_def)
  show ?thesis
    by (simp add: embedding_points_def sh c bind_run_def lift_result_def
        return_run_def tf_reshape_flat_def single_gt_seg_def tf_transpose_1230_def
        tf_reshape_rows_def upt_rec)
qed

lemma square4_margin_loss: "margin_loss [1, 1, 5] [1, 1, 0] [0, 0, 4] (1 / 10) = 3362 / 25"
  by code_simp

lemma square4_margin_gradient:
  "margin_gradient [1, 1, 5] [1, 1, 0] [0, 0, 4] (1 / 10) = [- (164 / 5), - (164 / 5), 328 / 5]"
  by code_simp

lemma square4_um_loss_default:
  "um_loss square4_emst [7, 7, 8, 8] (1 / 10) =
     Inr (3362 / 25,
          \<lparr>dtype = Float64, items = [- (164 / 5), - (164 / 5), 328 / 5]\<rparr>,
          \<lparr>dtype = Float64, items = [1 / 2, 1 / 2, 0]\<rparr>,
          \<lparr>dtype = Float64, items = [0, 0, 1]\<rparr>, 2, 4)"
  using square4_um_loss_eval [of "1 / 10"]
  by (simp add: square4_margin_loss square4_margin_gradient)


subsection \<open>The pretraining loss\<close>

lemma zip_as_nth:
  "length xs = length ys \<Longrightarrow> zip xs ys = map (\<lambda>i. (xs ! i, ys ! i)) [0..<length xs]"
  by (intro nth_equalityI) auto

lemma tf_multiply_same_length:
  assumes "length xs = length ys"
  shows "tf_multiply xs ys = Inr (map (\<lambda>i. xs ! i * ys ! i) [0..<length xs])"
  using assms by (simp add: tf_multiply_def zip_as_nth [OF assms] comp_def)

lemma loss_pos_sum:
  assumes "length rp = length es"
  shows "tf_multiply (map (\<lambda>e. (edge_length pts e)\<^sup>2) es) rp = Inr lp \<Longrightarrow>
         sum_list lp = pretrain_loss_pos (map (edge_length pts) es) rp"
proof -
  assume "tf_multiply (map (\<lambda>e. (edge_length pts e)\<^sup>2) es) rp = Inr lp"
  then have "lp = map (\<lambda>i. map (\<lambda>e. (edge_length pts e)\<^sup>2) es ! i * rp ! i) [0..<length es]"
    using tf_multiply_same_length [of "map (\<lambda>e. (edge_length pts e)\<^sup>2) es" rp] assms
    by simp
  also have "\<dots> = map (\<lambda>i. (map (edge_length pts) es ! i)\<^sup>2 * rp ! i) [0..<length es]"
    by (rule map_cong) auto
  finally show ?thesis
    by (simp add: pretrain_loss_pos_def)
qed

lemma loss_neg_sum:
  assumes "length rn = length es"
  shows "tf_multiply (map (\<lambda>d. (max 0 (alpha - d))\<^sup>2) (map (edge_length pts) es)) rn = Inr lneg \<Longrightarrow>
         sum_list lneg = pretrain_loss_neg alpha (map (edge_length pts) es) rn"
proof -
  let ?d = "map (edge_length pts) es"
  assume "tf_multiply (map (\<lambda>d. (max 0 (alpha - d))\<^sup>2) ?d) rn = Inr lneg"
  then have "lneg = map (\<lambda>i. map (\<lambda>d. (max 0 (alpha - d))\<^sup>2) ?d ! i * rn ! i) [0..<length es]"
    using tf_multiply_same_length [of "map (\<lambda>d. (max 0 (alpha - d))\<^sup>2) ?d" rn] assms
    by simp
  also have "\<dots> = map (\<lambda>i. (max 0 (alpha - ?d ! i))\<^sup>2 * rn ! i) [0..<length es]"
    by (rule map_cong) auto
  finally show ?thesis
    by (simp add: pretrain_loss_neg_def)
qed

lemma tf_multiply_defined:
  "length xs = length ys \<Longrightarrow> \<exists>zs. tf_multiply xs ys = Inr zs"
  by (simp add: tf_multiply_def)

text \<open>
  C1. In pretrain mode without balancing, on every input for which the steps before
  the MST builder succeed, the MST builder returns a float64 MST with at least one edge
  (as an MST of two points or more has) whose node indices are in range, and \<open>um_loss\<close>
  returns one ratio per edge and pair counts that are not both zero, the op returns the
  loss
  \<open>(\<Sum>i. (d i)\<^sup>2 * ratio_pos i) * num_pairs_pos
     + (\<Sum>i. (max 0 (alpha - d i))\<^sup>2 * ratio_neg i) * num_pairs_neg\<close>
  divided by \<open>num_pairs_pos + num_pairs_neg\<close>, where \<open>d i\<close> is the Euclidean length of the
  MST edge \<open>i\<close>. Arithmetic is exact.
\<close>

theorem pretrain_unbalanced_loss:
  assumes pts: "embedding_points embedding gt_seg mask_arg alpha addc cs s = (Inr (pts, labels), s1)"
    and em: "em \<lparr>dtype = Float64, items = pts\<rparr> = Inr emst"
    and f64: "dtype emst = Float64"
    and ne: "items emst \<noteq> []"
    and idx: "edges_in_range (length pts) (items emst)"
    and ul: "ul emst labels alpha = Inr (l, g, ratio_pos, ratio_neg, num_pairs_pos, num_pairs_neg)"
    and lp: "length (items ratio_pos) = length (items emst)"
    and lnn: "length (items ratio_neg) = length (items emst)"
    and nz: "num_pairs_pos + num_pairs_neg \<noteq> 0"
  shows "ultrametric_loss_op em ul embedding gt_seg mask_arg alpha addc cs True False s =
     (Inr (Finite ((pretrain_loss_pos (map (edge_length pts) (items emst)) (items ratio_pos)
                      * num_pairs_pos
                    + pretrain_loss_neg alpha (map (edge_length pts) (items emst))
                        (items ratio_neg) * num_pairs_neg)
                   / (num_pairs_pos + num_pairs_neg)),
           emst,
           map (\<lambda>(u, v, d). pts ! nat (tf_cast_int64 u)) (items emst),
           map (\<lambda>(u, v, d). pts ! nat (tf_cast_int64 v)) (items emst),
           map (edge_length pts) (items emst)),
      op_events s1 pts emst labels alpha)"
proof -
  obtain loss_pos where p: "tf_multiply (map (\<lambda>e. (edge_length pts e)\<^sup>2) (items emst))
      (items ratio_pos) = Inr loss_pos"
    using tf_multiply_defined [of "map (\<lambda>e. (edge_length pts e)\<^sup>2) (items emst)" "items ratio_pos"] lp
    by auto
  obtain loss_neg where n: "tf_multiply (map (\<lambda>d. (max 0 (alpha - d))\<^sup>2)
      (map (edge_length pts) (items emst))) (items ratio_neg) = Inr loss_neg"
    using tf_multiply_defined [of "map (\<lambda>d. (max 0 (alpha - d))\<^sup>2)
      (map (edge_length pts) (items emst))" "items ratio_neg"] lnn
    by auto
  show ?thesis
    unfolding loss_op_eval [where em = em, OF pts em f64 ne idx]
    by (simp add: ul p n tf_div_def nz loss_pos_sum [OF lp p] loss_neg_sum [OF lnn n]
        del: map_map)
qed

theorem pretrain_unbalanced_loss_witness:
  "fst (ultrametric_loss_op euclidean_mst um_loss square4_embedding square4_gt_seg None 6
          False (ScaleFloat 1) True False [])
     = Inr (Finite 1, square4_emst,
            [[0, 0], [5, 0], [0, 0]], [[0, 1], [5, 1], [5, 0]], [1, 1, 5])"
proof -
  have ne: "items square4_emst \<noteq> []" and f64: "dtype square4_emst = Float64"
    by (simp_all add: square4_emst_def)
  have ul: "um_loss square4_emst [7, 7, 8, 8] 6 =
     Inr (margin_loss [1, 1, 5] [1, 1, 0] [0, 0, 4] 6,
          \<lparr>dtype = Float64, items = margin_gradient [1, 1, 5] [1, 1, 0] [0, 0, 4] 6\<rparr>,
          \<lparr>dtype = Float64, items = [1 / 2, 1 / 2, 0]\<rparr>,
          \<lparr>dtype = Float64, items = [0, 0, 1]\<rparr>, 2, 4)"
    by (rule square4_um_loss_eval) simp
  have "ultrametric_loss_op euclidean_mst um_loss square4_embedding square4_gt_seg None 6
          False (ScaleFloat 1) True False [] =
     (Inr (Finite ((pretrain_loss_pos (map (edge_length square4_points) (items square4_emst))
                      (items \<lparr>dtype = Float64, items = [1 / 2, 1 / 2, 0]\<rparr>) * 2
                    + pretrain_loss_neg 6 (map (edge_length square4_points) (items square4_emst))
                        (items \<lparr>dtype = Float64, items = [0, 0, 1]\<rparr>) * 4)
                   / (2 + 4)),
           square4_emst,
           map (\<lambda>(u, v, d). square4_points ! nat (tf_cast_int64 u)) (items square4_emst),
           map (\<lambda>(u, v, d). square4_points ! nat (tf_cast_int64 v)) (items square4_emst),
           map (edge_length square4_points) (items square4_emst)),
      op_events [] square4_points square4_emst [7, 7, 8, 8] 6)"
    by (rule pretrain_unbalanced_loss [where em = euclidean_mst and ul = um_loss,
          OF square4_points_eval square4_emst_eval f64 ne square4_in_range ul])
       (simp_all add: square4_emst_def)
  then show ?thesis
    by (simp add: square4_lengths square4_loss_pos square4_loss_neg)
       (simp add: square4_emst_def square4_points_def tf_cast_int64_def)
qed

text \<open>
  C2. In pretrain mode with balancing, on every such input, the op returns the loss
  \<open>(\<Sum>i. (d i)\<^sup>2 * ratio_pos i) + (\<Sum>i. (max 0 (alpha - d i))\<^sup>2 * ratio_neg i)\<close>, with no
  division by the pair counts. Arithmetic is exact.
\<close>

theorem pretrain_balanced_loss:
  assumes pts: "embedding_points embedding gt_seg mask_arg alpha addc cs s = (Inr (pts, labels), s1)"
    and em: "em \<lparr>dtype = Float64, items = pts\<rparr> = Inr emst"
    and f64: "dtype emst = Float64"
    and ne: "items emst \<noteq> []"
    and idx: "edges_in_range (length pts) (items emst)"
    and ul: "ul emst labels alpha = Inr (l, g, ratio_pos, ratio_neg, num_pairs_pos, num_pairs_neg)"
    and lp: "length (items ratio_pos) = length (items emst)"
    and lnn: "length (items ratio_neg) = length (items emst)"
  shows "ultrametric_loss_op em ul embedding gt_seg mask_arg alpha addc cs True True s =
     (Inr (Finite (pretrain_loss_pos (map (edge_length pts) (items emst)) (items ratio_pos)
                   + pretrain_loss_neg alpha (map (edge_length pts) (items emst))
                        (items ratio_neg)),
           emst,
           map (\<lambda>(u, v, d). pts ! nat (tf_cast_int64 u)) (items emst),
           map (\<lambda>(u, v, d). pts ! nat (tf_cast_int64 v)) (items emst),
           map (edge_length pts) (items emst)),
      op_events s1 pts emst labels alpha)"
proof -
  obtain loss_pos where p: "tf_multiply (map (\<lambda>e. (edge_length pts e)\<^sup>2) (items emst))
      (items ratio_pos) = Inr loss_pos"
    using tf_multiply_defined [of "map (\<lambda>e. (edge_length pts e)\<^sup>2) (items emst)" "items ratio_pos"] lp
    by auto
  obtain loss_neg where n: "tf_multiply (map (\<lambda>d. (max 0 (alpha - d))\<^sup>2)
      (map (edge_length pts) (items emst))) (items ratio_neg) = Inr loss_neg"
    using tf_multiply_defined [of "map (\<lambda>d. (max 0 (alpha - d))\<^sup>2)
      (map (edge_length pts) (items emst))" "items ratio_neg"] lnn
    by auto
  show ?thesis
    unfolding loss_op_eval [where em = em, OF pts em f64 ne idx]
    by (simp add: ul p n loss_pos_sum [OF lp p] loss_neg_sum [OF lnn n] del: map_map)
qed

theorem pretrain_balanced_loss_witness:
  "fst (ultrametric_loss_op euclidean_mst um_loss square4_embedding square4_gt_seg None 6
          False (ScaleFloat 1) True True [])
     = Inr (Finite 2, square4_emst,
            [[0, 0], [5, 0], [0, 0]], [[0, 1], [5, 1], [5, 0]], [1, 1, 5])"
proof -
  have ne: "items square4_emst \<noteq> []" and f64: "dtype square4_emst = Float64"
    by (simp_all add: square4_emst_def)
  have ul: "um_loss square4_emst [7, 7, 8, 8] 6 =
     Inr (margin_loss [1, 1, 5] [1, 1, 0] [0, 0, 4] 6,
          \<lparr>dtype = Float64, items = margin_gradient [1, 1, 5] [1, 1, 0] [0, 0, 4] 6\<rparr>,
          \<lparr>dtype = Float64, items = [1 / 2, 1 / 2, 0]\<rparr>,
          \<lparr>dtype = Float64, items = [0, 0, 1]\<rparr>, 2, 4)"
    by (rule square4_um_loss_eval) simp
  have "ultrametric_loss_op euclidean_mst um_loss square4_embedding square4_gt_seg None 6
          False (ScaleFloat 1) True True [] =
     (Inr (Finite (pretrain_loss_pos (map (edge_length square4_points) (items square4_emst))
                      (items \<lparr>dtype = Float64, items = [1 / 2, 1 / 2, 0]\<rparr>)
                    + pretrain_loss_neg 6 (map (edge_length square4_points) (items square4_emst))
                        (items \<lparr>dtype = Float64, items = [0, 0, 1]\<rparr>)),
           square4_emst,
           map (\<lambda>(u, v, d). square4_points ! nat (tf_cast_int64 u)) (items square4_emst),
           map (\<lambda>(u, v, d). square4_points ! nat (tf_cast_int64 v)) (items square4_emst),
           map (edge_length square4_points) (items square4_emst)),
      op_events [] square4_points square4_emst [7, 7, 8, 8] 6)"
    by (rule pretrain_balanced_loss [where em = euclidean_mst and ul = um_loss,
          OF square4_points_eval square4_emst_eval f64 ne square4_in_range ul])
       (simp_all add: square4_emst_def)
  then show ?thesis
    by (simp add: square4_lengths square4_loss_pos square4_loss_neg)
       (simp add: square4_emst_def square4_points_def tf_cast_int64_def)
qed

subsection \<open>A single point\<close>

text \<open>
  C3, as the code has it. Whenever the MST builder returns an MST without edges, which is
  what it returns for a single point, the op does not return a loss: \<open>np.min\<close> of the
  empty column of distances raises ValueError in \<open>get_emst\<close>, and the op fails with it
  right after the call of the MST builder, without calling \<open>um_loss\<close>.
\<close>

theorem no_edges_hard_failure:
  assumes pts: "embedding_points embedding gt_seg mask_arg alpha addc cs s = (Inr (pts, labels), s1)"
    and em: "em \<lparr>dtype = Float64, items = pts\<rparr> = Inr emst"
    and none: "items emst = []"
  shows "ultrametric_loss_op em ul embedding gt_seg mask_arg alpha addc cs pretrain balance s
           = (Inl ValueError, s1 @ [CallEmst \<lparr>dtype = Float64, items = pts\<rparr>])"
proof -
  have "get_emst_op em \<lparr>dtype = Float32, items = pts\<rparr> s1
          = (Inl ValueError, s1 @ [CallEmst \<lparr>dtype = Float64, items = pts\<rparr>])"
    using em none by (simp add: get_emst_op_eval astype_def)
  then show ?thesis
    by (simp add: ultrametric_loss_op_def bind_run_def pts)
qed

theorem no_edges_hard_failure_witness:
  "ultrametric_loss_op euclidean_mst um_loss line3_embedding line3_gt_seg
       (Some line3_mask_first) (1 / 10) True (ScaleFloat 1) False False []
     = (Inl ValueError, [] @ [CallEmst \<lparr>dtype = Float64, items = [[0, 0, 0, 0, 0, 0]]\<rparr>])"
  by (rule no_edges_hard_failure [where em = euclidean_mst,
        OF line3_first_point_eval one_point_emst_eval]) simp

text \<open>
  C3 as stated fails on a volume of one voxel, with the default arguments: the run ends in
  ValueError, not in a loss of zero.
\<close>

theorem single_point_counterexample:
  "ultrametric_loss_op euclidean_mst um_loss single_embedding single_gt_seg None (1 / 10)
       True (ScaleFloat 1) False False []
     = (Inl ValueError, [CallEmst \<lparr>dtype = Float64, items = [[0, 0, 0, 0, 0, 0]]\<rparr>])"
  by (simp add: ultrametric_loss_op_def bind_run_def single_points_eval get_emst_op_eval
      astype_def one_point_emst_eval)

subsection \<open>The registered backward pass\<close>

text \<open>
  C4. \<open>get_um_loss_gradient_op\<close> returns one entry per input of the op, in the order
  \<open>(emst, dist, gt_seg, alpha)\<close>: \<open>None\<close> for the MST, for the labels and for \<open>alpha\<close>, and
  for \<open>dist\<close> the gradient of \<open>um_loss\<close> multiplied by the incoming \<open>dloss\<close>. The incoming
  gradients of the other outputs are not used. When \<open>um_loss\<close> fails, so does the
  gradient function.
\<close>

theorem gradient_op_only_for_dist:
  "get_um_loss_gradient_op ul op dloss dratio_pos dratio_neg dnum_pairs_pos dnum_pairs_neg s =
     ((case ul (op_mst op) (op_gt_seg op) (op_alpha op) of
         Inl e \<Rightarrow> Inl e
       | Inr (loss, gradient, ratio_pos, ratio_neg, num_pairs_pos, num_pairs_neg) \<Rightarrow>
           Inr (None, Some (scale_by (astype Float32 gradient) dloss), None, None)),
      s @ [CallUmLoss (op_mst op) (op_gt_seg op) (op_alpha op)])"
  by (simp add: get_um_loss_gradient_op_def bind_run_def get_um_loss_gradient_eval
      expect_dtype_def return_run_def astype_def split: sum.splits prod.splits)

theorem gradient_op_only_for_dist_witness:
  "get_um_loss_gradient_op um_loss
     \<lparr>op_mst = square4_emst, op_dist = \<lparr>dtype = Float32, items = [1, 1, 5]\<rparr>,
      op_gt_seg = [7, 7, 8, 8], op_alpha = 1 / 10\<rparr>
     2 \<lparr>dtype = Float32, items = [0, 0, 0]\<rparr> \<lparr>dtype = Float32, items = [0, 0, 0]\<rparr> 0 0 [] =
   (Inr (None, Some \<lparr>dtype = Float32, items = [- (328 / 5), - (328 / 5), 656 / 5]\<rparr>,
         None, None),
    [CallUmLoss square4_emst [7, 7, 8, 8] (1 / 10)])"
  unfolding gradient_op_only_for_dist
  by (simp add: square4_um_loss_default scale_by_def astype_def)

subsection \<open>The separate gradient entry point\<close>



subsection \<open>Double precision of the MST builder\<close>

text \<open>
  C6. Whatever the precision of the embedding given to \<open>get_emst_op\<close>, the MST builder is
  called exactly once, on the embedding converted to \<open>float64\<close> (the same values with the
  tag \<open>Float64\<close>), and an MST that the op returns is the builder's and is a \<open>float64\<close>
  array.
\<close>

theorem emst_double_precision:
  "(\<exists>evs. snd (get_emst_op em embedding s) = s @ CallEmst (astype Float64 embedding) # evs
          \<and> (\<forall>a. CallEmst a \<notin> set evs))
   \<and> dtype (astype Float64 embedding) = Float64
   \<and> items (astype Float64 embedding) = items embedding
   \<and> (\<forall>emst. fst (get_emst_op em embedding s) = Inr emst \<longrightarrow>
         dtype emst = Float64 \<and> em (astype Float64 embedding) = Inr emst)"
  by (auto simp: get_emst_op_eval astype_def split: sum.splits list.splits if_splits)

theorem emst_double_precision_witness:
  "snd (get_emst_op euclidean_mst \<lparr>dtype = Float16, items = square4_points\<rparr> [])
     = [] @ CallEmst (astype Float64 \<lparr>dtype = Float16, items = square4_points\<rparr>) # [LogInfo 1 5]
   \<and> fst (get_emst_op euclidean_mst \<lparr>dtype = Float16, items = square4_points\<rparr> [])
     = Inr square4_emst
   \<and> dtype square4_emst = Float64"
proof -
  have "\<forall>emst. fst (get_emst_op euclidean_mst \<lparr>dtype = Float16, items = square4_points\<rparr> [])
          = Inr emst \<longrightarrow> dtype emst = Float64"
    using emst_double_precision [of euclidean_mst "\<lparr>dtype = Float16, items = square4_points\<rparr>" "[]"]
    by blast
  then show ?thesis
    by (simp add: square4_get_emst_op astype_def)
qed

subsection \<open>Invalid input\<close>




subsection \<open>Determinism and statelessness\<close>



subsection \<open>The \<open>dist\<close> argument\<close>

text \<open>
  C9. The argument \<open>dist\<close> of \<open>get_um_loss\<close> and of \<open>get_um_loss_gradient\<close> has no
  influence on what they do: with the same \<open>mst\<close>, \<open>gt_seg\<close> and \<open>alpha\<close>, any two values
  of \<open>dist\<close> give the same result and the same events, whatever the native routine is.
\<close>

theorem dist_argument_ignored:
  "get_um_loss ul mst dist1 gt_seg alpha = get_um_loss ul mst dist2 gt_seg alpha
   \<and> get_um_loss_gradient ul mst dist1 gt_seg alpha
     = get_um_loss_gradient ul mst dist2 gt_seg alpha"
  by (simp add: get_um_loss_def get_um_loss_gradient_def)

theorem dist_argument_ignored_witness:
  "get_um_loss um_loss square4_emst \<lparr>dtype = Float32, items = [1, 1, 5]\<rparr> [7, 7, 8, 8] (1 / 10)
     = get_um_loss um_loss square4_emst \<lparr>dtype = Float32, items = [0, 0, 0]\<rparr> [7, 7, 8, 8]
         (1 / 10)
   \<and> get_um_loss_gradient um_loss square4_emst \<lparr>dtype = Float32, items = [1, 1, 5]\<rparr>
       [7, 7, 8, 8] (1 / 10)
     = get_um_loss_gradient um_loss square4_emst \<lparr>dtype = Float32, items = [0, 0, 0]\<rparr>
         [7, 7, 8, 8] (1 / 10)"
  by (rule dist_argument_ignored)

subsection \<open>Masking\<close>

text \<open>
  C10. With a mask or without one, the points handed to the MST builder are as many as
  the labels handed to \<open>um_loss\<close>: in the events of any run of \<open>ultrametric_loss_op\<close>, a
  call of the MST builder and a call of \<open>um_loss\<close> agree in these two counts.
\<close>

theorem masked_counts_agree:
  assumes run: "snd (ultrametric_loss_op em ul embedding gt_seg mask_arg alpha addc cs
                       pretrain balance s) = s @ evs"
    and emst_call: "CallEmst a \<in> set evs"
    and loss_call: "CallUmLoss mst labels al \<in> set evs"
  shows "length (items a) = length labels"
proof -
  obtain r s1 where ep: "embedding_points embedding gt_seg mask_arg alpha addc cs s = (r, s1)"
    by (cases "embedding_points embedding gt_seg mask_arg alpha addc cs s") auto
  obtain w where w: "s1 = s @ w" "list_all is_warning w"
    using embedding_points_events [of embedding gt_seg mask_arg alpha addc cs s] ep
    by (auto simp: is_warning_def)
  show ?thesis
  proof (cases r)
    case (Inl e)
    then have "evs = w"
      using run loss_op_fail_early [of embedding gt_seg mask_arg alpha addc cs s e s1] ep w
      by simp
    with emst_call w show ?thesis
      by (auto simp: list_all_iff is_warning_def)
  next
    case (Inr pl)
    obtain pts labels' where pl: "pl = (pts, labels')" by (cases pl) auto
    have ep': "embedding_points embedding gt_seg mask_arg alpha addc cs s = (Inr (pts, labels'), s1)"
      using ep Inr pl by simp
    obtain evs' where evs': "snd (ultrametric_loss_op em ul embedding gt_seg mask_arg alpha
          addc cs pretrain balance s) = s1 @ evs'"
        "list_all (native_call_of pts labels' alpha) evs'"
      using loss_op_events [OF ep'] by blast
    have evs: "evs = w @ evs'"
      using run evs'(1) w(1) by simp
    have "a = \<lparr>dtype = Float64, items = pts\<rparr>"
      using emst_call evs w(2) evs'(2)
      by (auto simp: list_all_iff is_warning_def native_call_of_def)
    moreover have "labels = labels'"
      using loss_call evs w(2) evs'(2)
      by (auto simp: list_all_iff is_warning_def native_call_of_def)
    ultimately show ?thesis
      using embedding_points_lengths [OF ep'] by simp
  qed
qed

theorem masked_counts_agree_witness:
  "snd (ultrametric_loss_op euclidean_mst um_loss line3_embedding line3_gt_seg (Some line3_mask)
          (1 / 10) True (ScaleFloat 1) False False [])
     = [] @ [CallEmst \<lparr>dtype = Float64, items = line3_points\<rparr>, LogInfo 1 1,
             CallUmLoss line3_emst [7, 7] (1 / 10)]
   \<and> length (items \<lparr>dtype = Float64, items = line3_points\<rparr>) = length [7, 7 :: int]"
proof -
  have run: "snd (ultrametric_loss_op euclidean_mst um_loss line3_embedding line3_gt_seg
          (Some line3_mask) (1 / 10) True (ScaleFloat 1) False False [])
     = [] @ [CallEmst \<lparr>dtype = Float64, items = line3_points\<rparr>, LogInfo 1 1,
             CallUmLoss line3_emst [7, 7] (1 / 10)]"
    by (simp add: line3_run)
  have "length (items \<lparr>dtype = Float64, items = line3_points\<rparr>) = length [7, 7 :: int]"
    by (rule masked_counts_agree [where mst = line3_emst and al = "1 / 10", OF run]) simp_all
  with run show ?thesis by simp
qed

end
